theory Spec2Isabelle
  imports Main
begin

section \<open>JavaScript Number values\<close>

text \<open>
  Every counter of the article holds a JavaScript Number: an IEEE-754 binary64 value.
  The examples only ever write \<open>0\<close>, \<open>x + 1\<close> and \<open>x * 2\<close>, so the values that occur are
  integers, the two infinities and NaN; fractions never arise. A finite value is given
  by its integer (the two zeros are identified: both are displayed as \<open>0\<close>).
  A binary64 significand has 53 bits, so an integer of more than 53 bits is rounded to a
  multiple of its unit in the last place, to nearest, ties to the even multiple; a result
  of magnitude \<open>2 ^ 1024\<close> or more is an infinity.
\<close>

datatype number = Finite int | PosInfinity | NegInfinity | NaN

fun bit_length :: "nat \<Rightarrow> nat" where
  "bit_length n = (if n = 0 then 0 else Suc (bit_length (n div 2)))"

declare bit_length.simps [simp del]

definition round_ties_even :: "int \<Rightarrow> int \<Rightarrow> int" where
  "round_ties_even u x =
     (let q = x div u; r = x mod u
      in if 2 * r < u then q * u
         else if u < 2 * r then (q + 1) * u
         else if even q then q * u
         else (q + 1) * u)"

definition round_binary64 :: "int \<Rightarrow> number" where
  "round_binary64 x =
     (let n = bit_length (nat \<bar>x\<bar>);
          y = (if n \<le> 53 then x else round_ties_even (2 ^ (n - 53)) x)
      in if 2 ^ 1024 \<le> y then PosInfinity
         else if y \<le> - (2 ^ 1024) then NegInfinity
         else Finite y)"

fun number_sign :: "number \<Rightarrow> int" where
  "number_sign (Finite a) = sgn a"
| "number_sign PosInfinity = 1"
| "number_sign NegInfinity = - 1"
| "number_sign NaN = 0"

text \<open>The operator \<open>+\<close> on two Numbers.\<close>

fun number_add :: "number \<Rightarrow> number \<Rightarrow> number" where
  "number_add (Finite a) (Finite b) = round_binary64 (a + b)"
| "number_add NaN y = NaN"
| "number_add x NaN = NaN"
| "number_add PosInfinity NegInfinity = NaN"
| "number_add NegInfinity PosInfinity = NaN"
| "number_add PosInfinity y = PosInfinity"
| "number_add x PosInfinity = PosInfinity"
| "number_add NegInfinity y = NegInfinity"
| "number_add x NegInfinity = NegInfinity"

text \<open>The operator \<open>*\<close> on two Numbers; an infinity times zero is NaN.\<close>

fun number_mul :: "number \<Rightarrow> number \<Rightarrow> number" where
  "number_mul (Finite a) (Finite b) = round_binary64 (a * b)"
| "number_mul NaN y = NaN"
| "number_mul x NaN = NaN"
| "number_mul x y =
     (let s = number_sign x * number_sign y
      in if s = 0 then NaN else if 0 < s then PosInfinity else NegInfinity)"

text \<open>
  JavaScript errors, and results of code that may throw: a TypeError of the language, and
  the error with which React gives up on a component that asks to be rendered again
  without end.
\<close>

datatype js_error = TypeError | RenderError

type_synonym 'a result = "js_error + 'a"


section \<open>Zustand (src/Zustand.js)\<close>

text \<open>
  \<^verbatim>\<open>create((set) => ({ count: 0, increment: () => set((state) => ({ count: state.count + 1 })) }))\<close>

  The store's state object has the members \<open>count\<close> and \<open>increment\<close>. The member
  \<open>increment\<close> is a closure that no update replaces; it is the constant \<open>increment\<close>
  below. \<open>set\<close> calls its updater on the current state and merges the partial state the
  updater returns into the state: a member the partial state has replaces the state's.
\<close>

record zustand_state =
  count :: number

record zustand_partial =
  partial_count :: "number option"

definition zustand_set ::
  "(zustand_state \<Rightarrow> zustand_partial) \<Rightarrow> zustand_state \<Rightarrow> zustand_state" where
  "zustand_set updater state =
     (case partial_count (updater state) of
        None \<Rightarrow> state
      | Some c \<Rightarrow> state\<lparr>zustand_state.count := c\<rparr>)"

definition useStore_initial :: zustand_state where
  "useStore_initial = \<lparr>zustand_state.count = Finite 0\<rparr>"

definition increment :: "zustand_state \<Rightarrow> zustand_state" where
  "increment =
     zustand_set (\<lambda>state.
       \<lparr>partial_count = Some (number_add (zustand_state.count state) (Finite 1))\<rparr>)"

text \<open>
  The component \<open>Counter\<close> shows \<open>count\<close> and binds the button to \<open>increment\<close>.
  \<open>Zustand_Counter\<close> is the number it shows, \<open>Zustand_onClick\<close> what a click does.
\<close>

definition Zustand_Counter :: "zustand_state \<Rightarrow> number" where
  "Zustand_Counter state = zustand_state.count state"

definition Zustand_onClick :: "zustand_state \<Rightarrow> zustand_state" where
  "Zustand_onClick = increment"


section \<open>Recoil (src/Recoil.js)\<close>

text \<open>
  An atom has a key and a default value. The store keeps the values that were set, by
  key; an atom that was never set reads as its default. At start nothing is set.
\<close>

record recoil_atom =
  key :: string
  default_value :: number

type_synonym recoil_store = "string \<rightharpoonup> number"

definition recoil_get :: "recoil_store \<Rightarrow> recoil_atom \<Rightarrow> number" where
  "recoil_get store a = (case store (key a) of None \<Rightarrow> default_value a | Some v \<Rightarrow> v)"

definition recoil_set :: "recoil_atom \<Rightarrow> number \<Rightarrow> recoil_store \<Rightarrow> recoil_store" where
  "recoil_set a v store = store(key a \<mapsto> v)"

definition recoil_initial :: recoil_store where
  "recoil_initial = Map.empty"

definition countState :: recoil_atom where
  "countState = \<lparr>key = ''countState'', default_value = Finite 0\<rparr>"

text \<open>The selector's \<open>get\<close>: \<^verbatim>\<open>get(countState) * 2\<close>.\<close>

definition doubleCountState :: "recoil_store \<Rightarrow> number" where
  "doubleCountState store = number_mul (recoil_get store countState) (Finite 2)"

text \<open>
  A render of \<open>Counter\<close> reads \<open>count\<close> and \<open>doubleCount\<close> and shows both.
\<close>

record recoil_view =
  shown_count :: number
  shown_doubleCount :: number

definition Recoil_Counter :: "recoil_store \<Rightarrow> recoil_view" where
  "Recoil_Counter store =
     (let count = recoil_get store countState;
          doubleCount = doubleCountState store
      in \<lparr>shown_count = count, shown_doubleCount = doubleCount\<rparr>)"

text \<open>
  The render also builds the button's handler, \<^verbatim>\<open>() => setCount(count + 1)\<close>. Its
  \<open>count\<close> is the one this render has read, not the store's at the time of the click:
  \<open>Recoil_onClick view\<close> is the handler of the render \<open>view\<close>, and it writes that render's
  count plus one whatever the store holds.
\<close>

definition Recoil_onClick :: "recoil_view \<Rightarrow> recoil_store \<Rightarrow> recoil_store" where
  "Recoil_onClick view store =
     recoil_set countState (number_add (shown_count view) (Finite 1)) store"

text \<open>
  The page: the store, and the last render of \<open>Counter\<close>, which is what the screen shows
  and whose handler the button runs. A click runs that handler and does not render; a
  render replaces the screen by a render of the current store. React renders again after
  the handlers of an event have run, so a user's clicks alternate with renders; handlers
  called one after the other with no render between run the same handler again.
\<close>

record recoil_page =
  atoms :: recoil_store
  screen :: recoil_view

datatype recoil_event = Click | Render

definition Recoil_mount :: recoil_page where
  "Recoil_mount = \<lparr>atoms = recoil_initial, screen = Recoil_Counter recoil_initial\<rparr>"

definition Recoil_click :: "recoil_page \<Rightarrow> recoil_page" where
  "Recoil_click page = page\<lparr>atoms := Recoil_onClick (screen page) (atoms page)\<rparr>"

definition Recoil_render :: "recoil_page \<Rightarrow> recoil_page" where
  "Recoil_render page = page\<lparr>screen := Recoil_Counter (atoms page)\<rparr>"

fun Recoil_events :: "recoil_event list \<Rightarrow> recoil_page \<Rightarrow> recoil_page" where
  "Recoil_events [] page = page"
| "Recoil_events (Click # es) page = Recoil_events es (Recoil_click page)"
| "Recoil_events (Render # es) page = Recoil_events es (Recoil_render page)"

text \<open>A click followed by the render React makes for it.\<close>

definition Recoil_click_render :: "recoil_page \<Rightarrow> recoil_page" where
  "Recoil_click_render page = Recoil_render (Recoil_click page)"


section \<open>Jotai (src/unnamed/part_000)\<close>

text \<open>
  \<^verbatim>\<open>atom(0)\<close> makes a primitive atom with an initial value. The store holds the atom's
  value once it has been written; before that the atom reads as its initial value.
  The setter of \<open>useAtom\<close>, called with a function, writes the function's value at the
  atom's current value.
\<close>

record jotai_atom =
  init :: number

type_synonym jotai_store = "number option"

definition countAtom :: jotai_atom where
  "countAtom = \<lparr>init = Finite 0\<rparr>"

definition jotai_initial :: jotai_store where
  "jotai_initial = None"

definition jotai_get :: "jotai_atom \<Rightarrow> jotai_store \<Rightarrow> number" where
  "jotai_get a store = (case store of None \<Rightarrow> init a | Some v \<Rightarrow> v)"

definition jotai_update :: "jotai_atom \<Rightarrow> (number \<Rightarrow> number) \<Rightarrow> jotai_store \<Rightarrow> jotai_store" where
  "jotai_update a f store = Some (f (jotai_get a store))"

definition Jotai_Counter :: "jotai_store \<Rightarrow> number" where
  "Jotai_Counter store = jotai_get countAtom store"

definition Jotai_onClick :: "jotai_store \<Rightarrow> jotai_store" where
  "Jotai_onClick = jotai_update countAtom (\<lambda>c. number_add c (Finite 1))"


section \<open>MobX (src/unnamed/part_000)\<close>

text \<open>
  \<^verbatim>\<open>class CounterStore { count = 0; increment() { this.count++ } }\<close>

  \<open>this.count++\<close> stores the old value plus one.
\<close>

record CounterStore =
  count :: number

definition counterStore :: CounterStore where
  "counterStore = \<lparr>CounterStore.count = Finite 0\<rparr>"

definition CounterStore_increment :: "CounterStore \<Rightarrow> CounterStore" where
  "CounterStore_increment this =
     this\<lparr>CounterStore.count := number_add (CounterStore.count this) (Finite 1)\<rparr>"

definition MobX_Counter :: "CounterStore \<Rightarrow> number" where
  "MobX_Counter store = CounterStore.count store"

definition MobX_onClick :: "CounterStore \<Rightarrow> CounterStore" where
  "MobX_onClick store = CounterStore_increment store"


section \<open>React Context API (src/unnamed/part_000)\<close>

text \<open>
  \<open>ThemeProvider\<close> holds the state \<open>theme\<close>, a string that starts as \<open>'light'\<close>, and
  provides \<open>{ theme, setTheme }\<close>. \<open>setTheme\<close> is the state's setter. \<open>createContext()\<close>
  is called without a default, so \<open>useTheme\<close> gives \<open>undefined\<close> outside a provider,
  and destructuring \<open>undefined\<close> in \<open>App\<close> throws a TypeError.
\<close>

record theme_context =
  theme :: string

definition ThemeContext :: "theme_context option" where
  "ThemeContext = None"

definition ThemeProvider_initial :: theme_context where
  "ThemeProvider_initial = \<lparr>theme = ''light''\<rparr>"

definition setTheme :: "string \<Rightarrow> theme_context \<Rightarrow> theme_context" where
  "setTheme v ctx = ctx\<lparr>theme := v\<rparr>"

definition useTheme :: "theme_context option \<Rightarrow> theme_context option" where
  "useTheme provider = (case provider of None \<Rightarrow> ThemeContext | Some ctx \<Rightarrow> Some ctx)"

text \<open>The argument of \<open>setTheme\<close> in the button's handler: \<^verbatim>\<open>theme === 'dark' ? 'light' : 'dark'\<close>.\<close>

definition toggle :: "string \<Rightarrow> string" where
  "toggle t = (if t = ''dark'' then ''light'' else ''dark'')"

text \<open>
  A render of \<open>App\<close> gives the background of the \<open>div\<close> and the button's handler, built
  from the \<open>theme\<close> it has read: \<open>click_theme\<close> is the value the handler passes to
  \<open>setTheme\<close>.
\<close>

record app_view =
  background :: string
  click_theme :: string

definition App :: "theme_context option \<Rightarrow> app_view result" where
  "App provider =
     (case useTheme provider of
        None \<Rightarrow> Inl TypeError
      | Some ctx \<Rightarrow>
          Inr \<lparr>background = (if theme ctx = ''dark'' then ''#333'' else ''#fff''),
               click_theme = toggle (theme ctx)\<rparr>)"

text \<open>A click on the button of \<open>App\<close>, rendered below \<open>ThemeProvider\<close> as the article uses it.\<close>

definition Context_onClick :: "theme_context \<Rightarrow> theme_context" where
  "Context_onClick ctx =
     (case App (Some ctx) of
        Inl e \<Rightarrow> ctx
      | Inr view \<Rightarrow> setTheme (click_theme view) ctx)"


section \<open>The five examples side by side\<close>

datatype example = ContextAPI | Zustand | Recoil | Jotai | MobX

datatype js_value = JSNumber number | JSString string

text \<open>The state each example manages, as it is before any click.\<close>

fun initial_state :: "example \<Rightarrow> js_value" where
  "initial_state ContextAPI = JSString (theme ThemeProvider_initial)"
| "initial_state Zustand = JSNumber (Zustand_Counter useStore_initial)"
| "initial_state Recoil = JSNumber (shown_count (Recoil_Counter recoil_initial))"
| "initial_state Jotai = JSNumber (Jotai_Counter jotai_initial)"
| "initial_state MobX = JSNumber (MobX_Counter counterStore)"

text \<open>
  The step an increment induces on the Number a counter holds: put the value in the
  store, run the increment, read. Zustand, Jotai and MobX read the store's value inside
  the update. Recoil's handler has read its \<open>count\<close> in a render: its step has two
  arguments, the count of the render that built the handler and the value the store
  holds when it runs.
\<close>

definition zustand_step :: "number \<Rightarrow> number" where
  "zustand_step v = Zustand_Counter (increment \<lparr>zustand_state.count = v\<rparr>)"

definition recoil_handler_step :: "number \<Rightarrow> number \<Rightarrow> number" where
  "recoil_handler_step rendered v =
     shown_count (Recoil_Counter
       (Recoil_onClick (Recoil_Counter (recoil_set countState rendered recoil_initial))
          (recoil_set countState v recoil_initial)))"

definition jotai_step :: "number \<Rightarrow> number" where
  "jotai_step v = Jotai_Counter (Jotai_onClick (Some v))"

definition mobx_step :: "number \<Rightarrow> number" where
  "mobx_step v = MobX_Counter (CounterStore_increment \<lparr>CounterStore.count = v\<rparr>)"


section \<open>The counters on untyped values\<close>























section \<open>Rounding\<close>

lemma bit_length_le: "n < 2 ^ k \<Longrightarrow> bit_length n \<le> k"
proof (induction n arbitrary: k rule: bit_length.induct)
  case (1 n)
  show ?case
  proof (cases "n = 0")
    case True
    then show ?thesis by (simp add: bit_length.simps)
  next
    case False
    then obtain j where k: "k = Suc j" using "1.prems" by (cases k) auto
    have "n div 2 < 2 ^ j" using "1.prems" k by auto
    then have "bit_length (n div 2) \<le> j" using "1.IH" False by blast
    then show ?thesis using False k by (simp add: bit_length.simps [of n])
  qed
qed

lemma bit_length_eq: "2 ^ k \<le> n \<Longrightarrow> n < 2 ^ Suc k \<Longrightarrow> bit_length n = Suc k"
proof (induction k arbitrary: n)
  case 0
  then have "n = 1" by simp
  then show ?case by (simp add: bit_length.simps)
next
  case (Suc k)
  have "(0::nat) < 2 ^ Suc k" by simp
  then have pos: "n \<noteq> 0" using Suc.prems(1) by linarith
  have "2 ^ k \<le> n div 2" using Suc.prems(1) by simp
  moreover have "n div 2 < 2 ^ Suc k" using Suc.prems(2) by simp
  ultimately have "bit_length (n div 2) = Suc k" by (rule Suc.IH)
  then show ?case using pos by (simp add: bit_length.simps [of n])
qed

lemma two_53_less_two_1024: "(2::int) ^ 53 < 2 ^ 1024"
  by (rule power_strict_increasing) simp_all

lemma two_54_less_two_1024: "(2::int) ^ 54 < 2 ^ 1024"
  by (rule power_strict_increasing) simp_all

lemma round_binary64_small:
  assumes "\<bar>x\<bar> < 2 ^ 53"
  shows "round_binary64 x = Finite x"
proof -
  from assms have "nat \<bar>x\<bar> < 2 ^ 53" by (simp add: nat_less_iff)
  then have "bit_length (nat \<bar>x\<bar>) \<le> 53" by (rule bit_length_le)
  moreover have "\<not> 2 ^ 1024 \<le> x" and "\<not> x \<le> - (2 ^ 1024)"
    using assms two_53_less_two_1024 by linarith+
  ultimately show ?thesis
    unfolding round_binary64_def Let_def by (simp only: if_True if_False)
qed

lemma round_binary64_limit: "round_binary64 9007199254740992 = Finite 9007199254740992"
  by (simp add: round_binary64_def round_ties_even_def bit_length.simps)

lemma round_binary64_neg_limit:
  "round_binary64 (- 9007199254740992) = Finite (- 9007199254740992)"
  by (simp add: round_binary64_def round_ties_even_def bit_length.simps)

lemma round_binary64_tie: "round_binary64 9007199254740993 = Finite 9007199254740992"
  by (simp add: round_binary64_def round_ties_even_def bit_length.simps)

text \<open>Above \<open>2 ^ 53\<close> only even integers are Numbers; an odd one goes to the even significand.\<close>

lemma round_binary64_examples:
  "round_binary64 9007199254740994 = Finite 9007199254740994"
  "round_binary64 9007199254740995 = Finite 9007199254740996"
  "round_binary64 (- 9007199254740993) = Finite (- 9007199254740992)"
  by (simp_all add: round_binary64_def round_ties_even_def bit_length.simps)

lemma round_binary64_le:
  assumes "\<bar>x\<bar> \<le> 2 ^ 53"
  shows "round_binary64 x = Finite x"
proof -
  consider "\<bar>x\<bar> < 2 ^ 53" | "x = 9007199254740992" | "x = - 9007199254740992"
    using assms by fastforce
  then show ?thesis
    by cases (simp_all only: round_binary64_small round_binary64_limit round_binary64_neg_limit)
qed

lemma number_add_one:
  assumes "- (2 ^ 53) \<le> v" and "v < 2 ^ 53"
  shows "number_add (Finite v) (Finite 1) = Finite (v + 1)"
proof -
  have "\<bar>v + 1\<bar> \<le> 2 ^ 53" using assms by simp
  then show ?thesis by (simp add: round_binary64_le)
qed

lemma number_add_one_limit:
  "number_add (Finite 9007199254740992) (Finite 1) = Finite 9007199254740992"
  by (simp add: round_binary64_tie)

lemma round_ties_even_multiple: "round_ties_even 2 (v * 2) = v * 2"
  by (simp add: round_ties_even_def)

lemma round_binary64_even:
  assumes "2 ^ 53 \<le> x" and "x < 2 ^ 54" and "even x"
  shows "round_binary64 x = Finite x"
proof -
  have "2 ^ 53 \<le> nat \<bar>x\<bar>" and "nat \<bar>x\<bar> < 2 ^ Suc 53"
    using assms(1,2) by (simp_all add: le_nat_iff nat_less_iff)
  then have n: "bit_length (nat \<bar>x\<bar>) = 54" using bit_length_eq [of 53 "nat \<bar>x\<bar>"] by simp
  obtain v where x: "x = v * 2" using assms(3) by (auto elim: evenE)
  have "(0::int) < 2 ^ 53" by simp
  then have "\<not> 2 ^ 1024 \<le> x" and "\<not> x \<le> - (2 ^ 1024)"
    using assms(1,2) two_54_less_two_1024 by linarith+
  then show ?thesis
    unfolding round_binary64_def Let_def n using x
    by (simp add: round_ties_even_multiple)
qed

lemma round_binary64_two_54: "round_binary64 18014398509481984 = Finite 18014398509481984"
  by (simp add: round_binary64_def round_ties_even_def bit_length.simps)

lemma number_mul_two:
  assumes "0 \<le> v" and "v \<le> 2 ^ 53"
  shows "number_mul (Finite v) (Finite 2) = Finite (2 * v)"
proof -
  consider "v * 2 < 2 ^ 53" | "2 ^ 53 \<le> v * 2" "v * 2 < 2 ^ 54" | "v * 2 = 18014398509481984"
    using assms by fastforce
  then have "round_binary64 (v * 2) = Finite (v * 2)"
  proof cases
    case 1
    then have "\<bar>v * 2\<bar> < 2 ^ 53" using assms(1) by simp
    then show ?thesis by (rule round_binary64_small)
  next
    case 2
    then show ?thesis by (intro round_binary64_even) simp_all
  next
    case 3
    then show ?thesis by (simp only: round_binary64_two_54)
  qed
  then show ?thesis by (simp add: mult.commute)
qed


section \<open>Runs of clicks\<close>

text \<open>
  A counter that starts at \<open>0\<close> and adds one per click shows the number of clicks up
  to \<open>2 ^ 53\<close>, and stays at \<open>2 ^ 53\<close> from there on: \<open>2 ^ 53 + 1\<close> is not a
  binary64 value, and the tie is rounded back to \<open>2 ^ 53\<close>.
\<close>

lemma counter_run:
  fixes read :: "'s \<Rightarrow> number" and step :: "'s \<Rightarrow> 's"
  assumes start: "read start = Finite 0"
    and step: "\<And>s. read (step s) = number_add (read s) (Finite 1)"
  shows "read ((step ^^ n) start) = Finite (min (int n) (2 ^ 53))"
proof (induction n)
  case 0
  show ?case using start by simp
next
  case (Suc n)
  have "read ((step ^^ Suc n) start) = number_add (Finite (min (int n) (2 ^ 53))) (Finite 1)"
    using step Suc.IH by simp
  also have "\<dots> = Finite (min (int (Suc n)) (2 ^ 53))"
  proof (cases "int n < 2 ^ 53")
    case True
    then have "number_add (Finite (int n)) (Finite 1) = Finite (int n + 1)"
      by (intro number_add_one) simp_all
    then show ?thesis using True by (simp add: min_def)
  next
    case False
    then show ?thesis using number_add_one_limit by (simp add: min_def)
  qed
  finally show ?case .
qed

lemma Zustand_onClick_read:
  "Zustand_Counter (Zustand_onClick s) = number_add (Zustand_Counter s) (Finite 1)"
  by (simp add: Zustand_Counter_def Zustand_onClick_def increment_def zustand_set_def)

lemma Jotai_onClick_read:
  "Jotai_Counter (Jotai_onClick s) = number_add (Jotai_Counter s) (Finite 1)"
  by (simp add: Jotai_Counter_def Jotai_onClick_def jotai_update_def jotai_get_def)

lemma MobX_onClick_read:
  "MobX_Counter (MobX_onClick s) = number_add (MobX_Counter s) (Finite 1)"
  by (simp add: MobX_Counter_def MobX_onClick_def CounterStore_increment_def)

lemma Zustand_initial_read: "Zustand_Counter useStore_initial = Finite 0"
  by (simp add: Zustand_Counter_def useStore_initial_def)

lemma Recoil_initial_read: "shown_count (Recoil_Counter recoil_initial) = Finite 0"
  by (simp add: Recoil_Counter_def recoil_initial_def recoil_get_def countState_def Let_def)

lemma Jotai_initial_read: "Jotai_Counter jotai_initial = Finite 0"
  by (simp add: Jotai_Counter_def jotai_initial_def jotai_get_def countAtom_def)

lemma MobX_initial_read: "MobX_Counter counterStore = Finite 0"
  by (simp add: MobX_Counter_def counterStore_def)

lemma Zustand_run:
  "Zustand_Counter ((Zustand_onClick ^^ n) useStore_initial) = Finite (min (int n) (2 ^ 53))"
  using Zustand_initial_read Zustand_onClick_read by (rule counter_run)

lemma Jotai_run:
  "Jotai_Counter ((Jotai_onClick ^^ n) jotai_initial) = Finite (min (int n) (2 ^ 53))"
  using Jotai_initial_read Jotai_onClick_read by (rule counter_run)

lemma MobX_run:
  "MobX_Counter ((MobX_onClick ^^ n) counterStore) = Finite (min (int n) (2 ^ 53))"
  using MobX_initial_read MobX_onClick_read by (rule counter_run)


section \<open>Recoil: clicks and renders\<close>

lemma Recoil_doubleCount_read:
  "shown_doubleCount (Recoil_Counter s) = number_mul (shown_count (Recoil_Counter s)) (Finite 2)"
  by (simp add: Recoil_Counter_def doubleCountState_def Let_def)

lemma Recoil_Counter_count: "shown_count (Recoil_Counter s) = recoil_get s countState"
  by (simp add: Recoil_Counter_def Let_def)

lemma Recoil_onClick_count:
  "recoil_get (Recoil_onClick view s) countState = number_add (shown_count view) (Finite 1)"
  by (simp add: Recoil_onClick_def recoil_set_def recoil_get_def)

lemma Recoil_mount_screen: "shown_count (screen Recoil_mount) = Finite 0"
  by (simp add: Recoil_mount_def Recoil_initial_read)

lemma Recoil_click_render_read:
  "shown_count (screen (Recoil_click_render page))
     = number_add (shown_count (screen page)) (Finite 1)"
  by (simp add: Recoil_click_render_def Recoil_render_def Recoil_click_def
      Recoil_Counter_count Recoil_onClick_count)

text \<open>With a render after each click the Recoil counter runs as the other three do.\<close>

lemma Recoil_run:
  "shown_count (screen ((Recoil_click_render ^^ n) Recoil_mount))
     = Finite (min (int n) (2 ^ 53))"
  using Recoil_mount_screen Recoil_click_render_read
  by (rule counter_run [where read = "\<lambda>page. shown_count (screen page)"])

lemma Recoil_events_append:
  "Recoil_events (xs @ ys) page = Recoil_events ys (Recoil_events xs page)"
  by (induction xs page rule: Recoil_events.induct) simp_all

lemma Recoil_events_click_render:
  "Recoil_events (concat (replicate n [Click, Render])) page = (Recoil_click_render ^^ n) page"
  by (induction n arbitrary: page) (simp_all add: Recoil_click_render_def funpow_swap1)

text \<open>
  With no render between, a second click runs the handler of the first again and writes
  the value the first has written.
\<close>

lemma Recoil_click_twice: "Recoil_click (Recoil_click page) = Recoil_click page"
  by (simp add: Recoil_click_def Recoil_onClick_def recoil_set_def)

lemma Recoil_clicks_no_render: "(Recoil_click ^^ Suc n) page = Recoil_click page"
  by (induction n) (simp_all add: Recoil_click_twice)

lemma Recoil_three_clicks_no_render:
  "shown_count (screen (Recoil_render ((Recoil_click ^^ 3) Recoil_mount))) = Finite 1"
proof -
  have "(Recoil_click ^^ 3) Recoil_mount = Recoil_click Recoil_mount"
    using Recoil_clicks_no_render [of 2 Recoil_mount] by (simp add: numeral_3_eq_3)
  then have "Recoil_render ((Recoil_click ^^ 3) Recoil_mount) = Recoil_click_render Recoil_mount"
    by (simp add: Recoil_click_render_def)
  then show ?thesis
    by (simp add: Recoil_click_render_read Recoil_mount_screen round_binary64_small)
qed

text \<open>
  Whatever the clicks and renders, the store's count and the count on the screen are
  integers from 0 to \<open>2 ^ 53\<close>, and the screen's double count is twice its count.
\<close>

lemma number_add_one_range:
  assumes "0 \<le> d" and "d \<le> 2 ^ 53"
  shows "\<exists>c. 0 \<le> c \<and> c \<le> 2 ^ 53 \<and> number_add (Finite d) (Finite 1) = Finite c"
proof (cases "d < 2 ^ 53")
  case True
  then have "number_add (Finite d) (Finite 1) = Finite (d + 1)"
    using assms(1) by (intro number_add_one) simp_all
  then show ?thesis using True assms(1) by auto
next
  case False
  then have "d = 9007199254740992" using assms(2) by simp
  then show ?thesis using number_add_one_limit by auto
qed

lemma Recoil_events_range:
  assumes "\<exists>c d. 0 \<le> c \<and> c \<le> 2 ^ 53 \<and> recoil_get (atoms page) countState = Finite c
             \<and> 0 \<le> d \<and> d \<le> 2 ^ 53 \<and> shown_count (screen page) = Finite d
             \<and> shown_doubleCount (screen page) = Finite (2 * d)"
  shows "\<exists>c d. 0 \<le> c \<and> c \<le> 2 ^ 53
             \<and> recoil_get (atoms (Recoil_events es page)) countState = Finite c
             \<and> 0 \<le> d \<and> d \<le> 2 ^ 53 \<and> shown_count (screen (Recoil_events es page)) = Finite d
             \<and> shown_doubleCount (screen (Recoil_events es page)) = Finite (2 * d)"
  using assms
proof (induction es arbitrary: page)
  case Nil
  then show ?case by simp
next
  case (Cons e es)
  from Cons.prems obtain c d where c: "0 \<le> c" "c \<le> 2 ^ 53"
    "recoil_get (atoms page) countState = Finite c"
    and d: "0 \<le> d" "d \<le> 2 ^ 53" "shown_count (screen page) = Finite d"
    "shown_doubleCount (screen page) = Finite (2 * d)"
    by blast
  show ?case
  proof (cases e)
    case Click
    obtain c' where c': "0 \<le> c'" "c' \<le> 2 ^ 53" "number_add (Finite d) (Finite 1) = Finite c'"
      using number_add_one_range [OF d(1,2)] by blast
    have "recoil_get (atoms (Recoil_click page)) countState = Finite c'"
      using c'(3) d(3) by (simp add: Recoil_click_def Recoil_onClick_count)
    moreover have "screen (Recoil_click page) = screen page"
      by (simp add: Recoil_click_def)
    ultimately have "\<exists>c d. 0 \<le> c \<and> c \<le> 2 ^ 53
        \<and> recoil_get (atoms (Recoil_click page)) countState = Finite c
        \<and> 0 \<le> d \<and> d \<le> 2 ^ 53 \<and> shown_count (screen (Recoil_click page)) = Finite d
        \<and> shown_doubleCount (screen (Recoil_click page)) = Finite (2 * d)"
      using c'(1,2) d by auto
    then show ?thesis using Cons.IH Click by simp
  next
    case Render
    have "shown_count (screen (Recoil_render page)) = Finite c"
      using c(3) by (simp add: Recoil_render_def Recoil_Counter_count)
    moreover have "shown_doubleCount (screen (Recoil_render page)) = Finite (2 * c)"
    proof -
      have "screen (Recoil_render page) = Recoil_Counter (atoms page)"
        by (simp add: Recoil_render_def)
      then have "shown_doubleCount (screen (Recoil_render page))
          = number_mul (Finite c) (Finite 2)"
        using c(3) by (simp only: Recoil_doubleCount_read Recoil_Counter_count)
      also have "\<dots> = Finite (2 * c)" using c(1,2) by (rule number_mul_two)
      finally show ?thesis .
    qed
    moreover have "atoms (Recoil_render page) = atoms page"
      by (simp add: Recoil_render_def)
    ultimately have "\<exists>c d. 0 \<le> c \<and> c \<le> 2 ^ 53
        \<and> recoil_get (atoms (Recoil_render page)) countState = Finite c
        \<and> 0 \<le> d \<and> d \<le> 2 ^ 53 \<and> shown_count (screen (Recoil_render page)) = Finite d
        \<and> shown_doubleCount (screen (Recoil_render page)) = Finite (2 * d)"
      using c by auto
    then show ?thesis using Cons.IH Render by simp
  qed
qed

lemma Recoil_mount_range:
  "\<exists>c d. 0 \<le> c \<and> c \<le> 2 ^ 53 \<and> recoil_get (atoms Recoil_mount) countState = Finite c
         \<and> 0 \<le> d \<and> d \<le> 2 ^ 53 \<and> shown_count (screen Recoil_mount) = Finite d
         \<and> shown_doubleCount (screen Recoil_mount) = Finite (2 * d)"
proof -
  have "recoil_get (atoms Recoil_mount) countState = Finite 0"
    by (simp add: Recoil_mount_def recoil_initial_def recoil_get_def countState_def)
  moreover have "shown_count (screen Recoil_mount) = Finite 0"
    by (rule Recoil_mount_screen)
  moreover have "shown_doubleCount (screen Recoil_mount) = Finite (2 * 0)"
    by (simp add: Recoil_mount_def Recoil_doubleCount_read Recoil_initial_read
        round_binary64_small)
  ultimately show ?thesis by (intro exI [of _ 0]) simp
qed

text \<open>The scenario of the specification: three clicks show 3, and 6 as the double count.\<close>

lemma three_clicks_scenario:
  "shown_count (screen ((Recoil_click_render ^^ 3) Recoil_mount)) = Finite 3
   \<and> shown_doubleCount (screen ((Recoil_click_render ^^ 3) Recoil_mount)) = Finite 6"
proof -
  have shown: "shown_count (screen ((Recoil_click_render ^^ 3) Recoil_mount)) = Finite 3"
    by (simp add: Recoil_run)
  have "(Recoil_click_render ^^ 3) Recoil_mount
      = Recoil_render (Recoil_click ((Recoil_click_render ^^ 2) Recoil_mount))"
    by (simp add: numeral_3_eq_3 numeral_2_eq_2 Recoil_click_render_def)
  then have "screen ((Recoil_click_render ^^ 3) Recoil_mount)
      = Recoil_Counter (atoms (Recoil_click ((Recoil_click_render ^^ 2) Recoil_mount)))"
    by (simp add: Recoil_render_def)
  then have "shown_doubleCount (screen ((Recoil_click_render ^^ 3) Recoil_mount))
      = number_mul (shown_count (screen ((Recoil_click_render ^^ 3) Recoil_mount))) (Finite 2)"
    by (simp only: Recoil_doubleCount_read)
  then show ?thesis using shown by (simp add: round_binary64_small)
qed


section \<open>The theme\<close>

lemma Context_onClick_theme: "theme (Context_onClick ctx) = toggle (theme ctx)"
  by (simp add: Context_onClick_def App_def useTheme_def setTheme_def)

lemma Context_run:
  "theme ((Context_onClick ^^ n) ThemeProvider_initial) = (if even n then ''light'' else ''dark'')"
  by (induction n) (simp_all add: ThemeProvider_initial_def Context_onClick_theme toggle_def)


section \<open>The steps of the four increments\<close>

lemma step_functions:
  "zustand_step v = number_add v (Finite 1)"
  "jotai_step v = number_add v (Finite 1)"
  "mobx_step v = number_add v (Finite 1)"
  by (simp_all add: zustand_step_def jotai_step_def mobx_step_def
      Zustand_Counter_def increment_def zustand_set_def
      Jotai_Counter_def Jotai_onClick_def jotai_update_def jotai_get_def
      MobX_Counter_def CounterStore_increment_def)

lemma recoil_handler_step_rendered:
  "recoil_handler_step rendered v = number_add rendered (Finite 1)"
  unfolding recoil_handler_step_def Recoil_Counter_count Recoil_onClick_count
  by (simp add: recoil_get_def recoil_set_def)


section \<open>The untyped operations on a Number\<close>




section \<open>The claims about the counters\<close>

text \<open>
  C1, with the bound the Number type forces and the render the Recoil handler needs: for
  every n up to \<open>2 ^ 53\<close>, n increments from the initial state give the count n in the
  Zustand, Jotai and MobX examples, and in the Recoil example when \<open>Counter\<close> is rendered
  again after each click.
\<close>

theorem increments_count:
  assumes "n \<le> 2 ^ 53"
  shows "Zustand_Counter ((Zustand_onClick ^^ n) useStore_initial) = Finite (int n)
       \<and> shown_count (screen ((Recoil_click_render ^^ n) Recoil_mount)) = Finite (int n)
       \<and> Jotai_Counter ((Jotai_onClick ^^ n) jotai_initial) = Finite (int n)
       \<and> MobX_Counter ((MobX_onClick ^^ n) counterStore) = Finite (int n)"
proof -
  from assms have "min (int n) (2 ^ 53) = int n" by simp
  then show ?thesis by (simp only: Zustand_run Recoil_run Jotai_run MobX_run simp_thms)
qed

text \<open>
  Three clicks from the start show 3 in each counter.
\<close>

theorem increments_count_witness:
  "(3::nat) \<le> 2 ^ 53
   \<and> Zustand_Counter ((Zustand_onClick ^^ 3) useStore_initial) = Finite 3
   \<and> shown_count (screen ((Recoil_click_render ^^ 3) Recoil_mount)) = Finite 3
   \<and> Jotai_Counter ((Jotai_onClick ^^ 3) jotai_initial) = Finite 3
   \<and> MobX_Counter ((MobX_onClick ^^ 3) counterStore) = Finite 3"
  using increments_count [of 3] by simp

text \<open>
  Without the bound the statement fails: after \<open>2 ^ 53 + 1\<close> increments every counter
  still shows \<open>2 ^ 53\<close>. Without the renders it fails in the Recoil example: three
  clicks on the first render, and then a render, show 1.
\<close>

theorem increments_count_counterexample:
  "Zustand_Counter ((Zustand_onClick ^^ 9007199254740993) useStore_initial)
     \<noteq> Finite 9007199254740993
   \<and> shown_count (screen ((Recoil_click_render ^^ 9007199254740993) Recoil_mount))
     \<noteq> Finite 9007199254740993
   \<and> Jotai_Counter ((Jotai_onClick ^^ 9007199254740993) jotai_initial)
     \<noteq> Finite 9007199254740993
   \<and> MobX_Counter ((MobX_onClick ^^ 9007199254740993) counterStore)
     \<noteq> Finite 9007199254740993
   \<and> shown_count (screen (Recoil_render ((Recoil_click ^^ 3) Recoil_mount))) \<noteq> Finite 3"
  by (simp add: Zustand_run Recoil_run Jotai_run MobX_run Recoil_three_clicks_no_render)

text \<open>
  C2: in the Recoil example, after any clicks and renders from the initial state, in any
  order, the count on the screen is an integer and the \<open>doubleCount\<close> on the screen is
  twice that integer; so it is in a render of the store reached, and so it is after n
  clicks each followed by a render.
\<close>

theorem doubleCount_twice_count:
  "(\<exists>c. shown_count (screen (Recoil_events es Recoil_mount)) = Finite c
      \<and> shown_doubleCount (screen (Recoil_events es Recoil_mount)) = Finite (2 * c))
   \<and> (\<exists>c. shown_count (Recoil_Counter (atoms (Recoil_events es Recoil_mount))) = Finite c
      \<and> shown_doubleCount (Recoil_Counter (atoms (Recoil_events es Recoil_mount)))
          = Finite (2 * c))
   \<and> (\<exists>c. shown_count (Recoil_Counter (atoms ((Recoil_click_render ^^ n) Recoil_mount)))
          = Finite c
      \<and> shown_doubleCount (Recoil_Counter (atoms ((Recoil_click_render ^^ n) Recoil_mount)))
          = Finite (2 * c))"
proof -
  have screen_ok: "\<exists>c. shown_count (screen (Recoil_events xs Recoil_mount)) = Finite c
      \<and> shown_doubleCount (screen (Recoil_events xs Recoil_mount)) = Finite (2 * c)" for xs
    using Recoil_events_range [OF Recoil_mount_range, of xs] by blast
  have render_ok: "\<exists>c. shown_count (Recoil_Counter (atoms (Recoil_events xs Recoil_mount)))
          = Finite c
      \<and> shown_doubleCount (Recoil_Counter (atoms (Recoil_events xs Recoil_mount)))
          = Finite (2 * c)" for xs
  proof -
    have "Recoil_events (xs @ [Render]) Recoil_mount
        = Recoil_render (Recoil_events xs Recoil_mount)"
      by (simp add: Recoil_events_append)
    then have "screen (Recoil_events (xs @ [Render]) Recoil_mount)
        = Recoil_Counter (atoms (Recoil_events xs Recoil_mount))"
      by (simp add: Recoil_render_def)
    then show ?thesis using screen_ok [of "xs @ [Render]"] by simp
  qed
  have "\<exists>c. shown_count (Recoil_Counter (atoms ((Recoil_click_render ^^ n) Recoil_mount)))
          = Finite c
      \<and> shown_doubleCount (Recoil_Counter (atoms ((Recoil_click_render ^^ n) Recoil_mount)))
          = Finite (2 * c)"
    using render_ok [of "concat (replicate n [Click, Render])"]
    by (simp only: Recoil_events_click_render)
  then show ?thesis using screen_ok [of es] render_ok [of es] by blast
qed

text \<open>
  C3: before any increment the count is 0 in every counter example.
\<close>

theorem initial_count_zero:
  "Zustand_Counter useStore_initial = Finite 0
   \<and> shown_count (Recoil_Counter recoil_initial) = Finite 0
   \<and> Jotai_Counter jotai_initial = Finite 0
   \<and> MobX_Counter counterStore = Finite 0"
  by (simp add: Zustand_initial_read Recoil_initial_read Jotai_initial_read MobX_initial_read)

text \<open>
  C4, with the bound the Number type forces and the render the Recoil handler needs: one
  increment of a state whose count is an integer v with \<open>- 2 ^ 53 \<le> v < 2 ^ 53\<close> gives a
  state whose count is \<open>v + 1\<close>, in the Zustand, Jotai and MobX examples, and in the
  Recoil example when the screen is a render of that state (the count on it is v too).
\<close>

theorem increment_adds_one:
  assumes "- (2 ^ 53) \<le> v" and "v < 2 ^ 53"
  shows "(Zustand_Counter z = Finite v \<longrightarrow>
            Zustand_Counter (Zustand_onClick z) = Finite (v + 1))
       \<and> (recoil_get (atoms p) countState = Finite v \<and> shown_count (screen p) = Finite v \<longrightarrow>
            recoil_get (atoms (Recoil_click p)) countState = Finite (v + 1)
            \<and> shown_count (screen (Recoil_click_render p)) = Finite (v + 1))
       \<and> (Jotai_Counter j = Finite v \<longrightarrow>
            Jotai_Counter (Jotai_onClick j) = Finite (v + 1))
       \<and> (MobX_Counter m = Finite v \<longrightarrow>
            MobX_Counter (MobX_onClick m) = Finite (v + 1))"
  using number_add_one [OF assms]
  by (simp add: Zustand_onClick_read Recoil_click_render_read Jotai_onClick_read
      MobX_onClick_read Recoil_click_def Recoil_onClick_count)

text \<open>
  The first click in each counter: from 0 to 1.
\<close>

theorem increment_adds_one_witness:
  "- (2 ^ 53) \<le> (0::int) \<and> (0::int) < 2 ^ 53
   \<and> Zustand_Counter useStore_initial = Finite 0
   \<and> Zustand_Counter (Zustand_onClick useStore_initial) = Finite 1
   \<and> recoil_get (atoms Recoil_mount) countState = Finite 0
   \<and> shown_count (screen Recoil_mount) = Finite 0
   \<and> recoil_get (atoms (Recoil_click Recoil_mount)) countState = Finite 1
   \<and> shown_count (screen (Recoil_click_render Recoil_mount)) = Finite 1
   \<and> Jotai_Counter jotai_initial = Finite 0
   \<and> Jotai_Counter (Jotai_onClick jotai_initial) = Finite 1
   \<and> MobX_Counter counterStore = Finite 0
   \<and> MobX_Counter (MobX_onClick counterStore) = Finite 1"
proof -
  have "recoil_get (atoms Recoil_mount) countState = Finite 0"
    by (simp add: Recoil_mount_def recoil_initial_def recoil_get_def countState_def)
  then show ?thesis
    using increment_adds_one [of 0 useStore_initial Recoil_mount jotai_initial counterStore]
    by (simp add: Zustand_initial_read Recoil_mount_screen Jotai_initial_read
        MobX_initial_read)
qed

text \<open>
  At the count \<open>2 ^ 53\<close> an increment does not give \<open>2 ^ 53 + 1\<close>, in any of the four
  counters. In the Recoil example, after one click and no render the count is 1, and a
  second click does not give 2.
\<close>

theorem increment_adds_one_counterexample:
  "Zustand_Counter (Zustand_onClick \<lparr>zustand_state.count = Finite 9007199254740992\<rparr>)
     \<noteq> Finite (9007199254740992 + 1)
   \<and> shown_count (screen (Recoil_click_render
        \<lparr>atoms = recoil_set countState (Finite 9007199254740992) recoil_initial,
         screen = Recoil_Counter
           (recoil_set countState (Finite 9007199254740992) recoil_initial)\<rparr>))
     \<noteq> Finite (9007199254740992 + 1)
   \<and> Jotai_Counter (Jotai_onClick (Some (Finite 9007199254740992)))
     \<noteq> Finite (9007199254740992 + 1)
   \<and> MobX_Counter (MobX_onClick \<lparr>CounterStore.count = Finite 9007199254740992\<rparr>)
     \<noteq> Finite (9007199254740992 + 1)
   \<and> recoil_get (atoms (Recoil_click Recoil_mount)) countState = Finite 1
   \<and> recoil_get (atoms (Recoil_click (Recoil_click Recoil_mount))) countState
     \<noteq> Finite (1 + 1)"
  unfolding Zustand_onClick_read Recoil_click_render_read Jotai_onClick_read MobX_onClick_read
    Recoil_click_twice
  by (simp add: Zustand_Counter_def Recoil_Counter_count recoil_get_def recoil_set_def
      Jotai_Counter_def jotai_get_def MobX_Counter_def round_binary64_tie
      Recoil_click_def Recoil_onClick_def Recoil_mount_screen round_binary64_small)

text \<open>
  C5, as the code has it: each of the four counter examples manages a Number that is
  0 at the start; the Context API example manages the string \<open>theme\<close>, which is
  \<open>'light'\<close> at the start.
\<close>

theorem initial_states:
  "(e \<noteq> ContextAPI \<longrightarrow> initial_state e = JSNumber (Finite 0))
   \<and> initial_state ContextAPI = JSString ''light''"
  by (cases e)
    (simp_all add: Zustand_initial_read Recoil_initial_read Jotai_initial_read
      MobX_initial_read ThemeProvider_initial_def)

text \<open>
  The Zustand example is one of the four.
\<close>

theorem initial_states_witness:
  "Zustand \<noteq> ContextAPI \<and> initial_state Zustand = JSNumber (Finite 0)
   \<and> initial_state ContextAPI = JSString ''light''"
  using initial_states [of Zustand] by simp

text \<open>
  The state of the Context API example is not the integer 0.
\<close>

theorem initial_states_counterexample:
  "initial_state ContextAPI \<noteq> JSNumber (Finite 0)"
  by (simp add: ThemeProvider_initial_def)

text \<open>
  C6, with the bound the Number type forces and the render the Recoil handler needs:
  every count reachable from the initial state by increments is a non-negative integer
  (in the Recoil example: the store's count after any clicks and renders, in any order),
  and an increment of a reachable count below \<open>2 ^ 53\<close> increases it by exactly one (in
  the Recoil example: when \<open>Counter\<close> is rendered again after each click).
\<close>

theorem counts_nonnegative:
  "(\<exists>c. 0 \<le> c
      \<and> Zustand_Counter ((Zustand_onClick ^^ n) useStore_initial) = Finite c
      \<and> (c < 2 ^ 53 \<longrightarrow>
           Zustand_Counter (Zustand_onClick ((Zustand_onClick ^^ n) useStore_initial))
             = Finite (c + 1)))
   \<and> (\<exists>c. 0 \<le> c
      \<and> recoil_get (atoms (Recoil_events es Recoil_mount)) countState = Finite c)
   \<and> (\<exists>c. 0 \<le> c
      \<and> shown_count (screen ((Recoil_click_render ^^ n) Recoil_mount)) = Finite c
      \<and> (c < 2 ^ 53 \<longrightarrow>
           shown_count (screen (Recoil_click_render ((Recoil_click_render ^^ n) Recoil_mount)))
             = Finite (c + 1)))
   \<and> (\<exists>c. 0 \<le> c
      \<and> Jotai_Counter ((Jotai_onClick ^^ n) jotai_initial) = Finite c
      \<and> (c < 2 ^ 53 \<longrightarrow>
           Jotai_Counter (Jotai_onClick ((Jotai_onClick ^^ n) jotai_initial)) = Finite (c + 1)))
   \<and> (\<exists>c. 0 \<le> c
      \<and> MobX_Counter ((MobX_onClick ^^ n) counterStore) = Finite c
      \<and> (c < 2 ^ 53 \<longrightarrow>
           MobX_Counter (MobX_onClick ((MobX_onClick ^^ n) counterStore)) = Finite (c + 1)))"
proof -
  let ?c = "min (int n) (2 ^ 53)"
  have nonneg: "0 \<le> ?c" by simp
  have succ: "?c < 2 ^ 53 \<longrightarrow> number_add (Finite ?c) (Finite 1) = Finite (?c + 1)"
    using nonneg by (intro impI number_add_one) simp_all
  have "0 \<le> ?c
      \<and> Zustand_Counter ((Zustand_onClick ^^ n) useStore_initial) = Finite ?c
      \<and> (?c < 2 ^ 53 \<longrightarrow>
           Zustand_Counter (Zustand_onClick ((Zustand_onClick ^^ n) useStore_initial))
             = Finite (?c + 1))"
    using nonneg succ by (simp only: Zustand_onClick_read Zustand_run simp_thms)
  moreover have "\<exists>c. 0 \<le> c
      \<and> recoil_get (atoms (Recoil_events es Recoil_mount)) countState = Finite c"
    using Recoil_events_range [OF Recoil_mount_range, of es] by blast
  moreover have "0 \<le> ?c
      \<and> shown_count (screen ((Recoil_click_render ^^ n) Recoil_mount)) = Finite ?c
      \<and> (?c < 2 ^ 53 \<longrightarrow>
           shown_count (screen (Recoil_click_render ((Recoil_click_render ^^ n) Recoil_mount)))
             = Finite (?c + 1))"
    using nonneg succ by (simp only: Recoil_click_render_read Recoil_run simp_thms)
  moreover have "0 \<le> ?c
      \<and> Jotai_Counter ((Jotai_onClick ^^ n) jotai_initial) = Finite ?c
      \<and> (?c < 2 ^ 53 \<longrightarrow>
           Jotai_Counter (Jotai_onClick ((Jotai_onClick ^^ n) jotai_initial)) = Finite (?c + 1))"
    using nonneg succ by (simp only: Jotai_onClick_read Jotai_run simp_thms)
  moreover have "0 \<le> ?c
      \<and> MobX_Counter ((MobX_onClick ^^ n) counterStore) = Finite ?c
      \<and> (?c < 2 ^ 53 \<longrightarrow>
           MobX_Counter (MobX_onClick ((MobX_onClick ^^ n) counterStore)) = Finite (?c + 1))"
    using nonneg succ by (simp only: MobX_onClick_read MobX_run simp_thms)
  ultimately show ?thesis by blast
qed

text \<open>
  The count after three clicks is below \<open>2 ^ 53\<close>, and the fourth click adds one to it.
\<close>

theorem counts_nonnegative_witness:
  "(\<exists>c. 0 \<le> c \<and> c < 2 ^ 53
      \<and> Zustand_Counter ((Zustand_onClick ^^ 3) useStore_initial) = Finite c
      \<and> Zustand_Counter (Zustand_onClick ((Zustand_onClick ^^ 3) useStore_initial))
           = Finite (c + 1))
   \<and> (\<exists>c. 0 \<le> c \<and> c < 2 ^ 53
      \<and> shown_count (screen ((Recoil_click_render ^^ 3) Recoil_mount)) = Finite c
      \<and> shown_count (screen (Recoil_click_render ((Recoil_click_render ^^ 3) Recoil_mount)))
           = Finite (c + 1))
   \<and> (\<exists>c. 0 \<le> c \<and> c < 2 ^ 53
      \<and> Jotai_Counter ((Jotai_onClick ^^ 3) jotai_initial) = Finite c
      \<and> Jotai_Counter (Jotai_onClick ((Jotai_onClick ^^ 3) jotai_initial)) = Finite (c + 1))
   \<and> (\<exists>c. 0 \<le> c \<and> c < 2 ^ 53
      \<and> MobX_Counter ((MobX_onClick ^^ 3) counterStore) = Finite c
      \<and> MobX_Counter (MobX_onClick ((MobX_onClick ^^ 3) counterStore)) = Finite (c + 1))"
proof -
  have three: "min (int 3) (2 ^ 53) = 3" by simp
  show ?thesis
    using counts_nonnegative [of 3 "[]"]
    unfolding Zustand_run Recoil_run Jotai_run MobX_run three
    by auto
qed

text \<open>
  The count \<open>2 ^ 53\<close> is reachable, and an increment does not increase it by one. In the
  Recoil example the count 1 is reached by one click, and a second click with no render
  between does not increase it.
\<close>

theorem counts_nonnegative_counterexample:
  "Zustand_Counter ((Zustand_onClick ^^ 9007199254740992) useStore_initial)
     = Finite 9007199254740992
   \<and> Zustand_Counter (Zustand_onClick ((Zustand_onClick ^^ 9007199254740992) useStore_initial))
     \<noteq> Finite (9007199254740992 + 1)
   \<and> shown_count (screen ((Recoil_click_render ^^ 9007199254740992) Recoil_mount))
     = Finite 9007199254740992
   \<and> shown_count (screen (Recoil_click_render
        ((Recoil_click_render ^^ 9007199254740992) Recoil_mount)))
     \<noteq> Finite (9007199254740992 + 1)
   \<and> Jotai_Counter ((Jotai_onClick ^^ 9007199254740992) jotai_initial)
     = Finite 9007199254740992
   \<and> Jotai_Counter (Jotai_onClick ((Jotai_onClick ^^ 9007199254740992) jotai_initial))
     \<noteq> Finite (9007199254740992 + 1)
   \<and> MobX_Counter ((MobX_onClick ^^ 9007199254740992) counterStore)
     = Finite 9007199254740992
   \<and> MobX_Counter (MobX_onClick ((MobX_onClick ^^ 9007199254740992) counterStore))
     \<noteq> Finite (9007199254740992 + 1)
   \<and> recoil_get (atoms (Recoil_events [Click] Recoil_mount)) countState = Finite 1
   \<and> recoil_get (atoms (Recoil_events [Click, Click] Recoil_mount)) countState
     \<noteq> Finite (1 + 1)"
  unfolding Zustand_onClick_read Recoil_click_render_read Jotai_onClick_read MobX_onClick_read
    Zustand_run Recoil_run Jotai_run MobX_run Recoil_events.simps Recoil_click_twice
  by (simp add: round_binary64_tie Recoil_click_def Recoil_onClick_count Recoil_mount_screen
      round_binary64_small)



text \<open>
  C8, as the code has it: the increments of Zustand, Jotai and MobX induce the same step
  on an integer state, which is \<open>n + 1\<close> for \<open>- 2 ^ 53 \<le> n < 2 ^ 53\<close>. The handler of
  Recoil writes the count of its render plus one whatever the store holds: its step is
  the step of the other three at the count rendered, so it is theirs when the store
  holds the count rendered.
\<close>

theorem increments_same_function:
  "zustand_step (Finite n) = jotai_step (Finite n)
   \<and> jotai_step (Finite n) = mobx_step (Finite n)
   \<and> recoil_handler_step (Finite n) (Finite n) = mobx_step (Finite n)
   \<and> recoil_handler_step (Finite c) (Finite n) = mobx_step (Finite c)
   \<and> (- (2 ^ 53) \<le> n \<and> n < 2 ^ 53 \<longrightarrow> mobx_step (Finite n) = Finite (n + 1))"
proof -
  have "- (2 ^ 53) \<le> n \<and> n < 2 ^ 53 \<longrightarrow> number_add (Finite n) (Finite 1) = Finite (n + 1)"
    by (intro impI number_add_one) simp_all
  then show ?thesis
    by (simp only: step_functions recoil_handler_step_rendered simp_thms)
qed

text \<open>
  Each of the four steps maps 0 to 1.
\<close>

theorem increments_same_function_witness:
  "- (2 ^ 53) \<le> (0::int) \<and> (0::int) < 2 ^ 53
   \<and> zustand_step (Finite 0) = Finite 1 \<and> jotai_step (Finite 0) = Finite 1
   \<and> mobx_step (Finite 0) = Finite 1 \<and> recoil_handler_step (Finite 0) (Finite 0) = Finite 1"
  using increments_same_function [of 0 0] by simp

text \<open>
  None of the four steps maps \<open>2 ^ 53\<close> to \<open>2 ^ 53 + 1\<close>, and the handler of a render
  that has read 0, run on a store that holds 1, does not do what the increment of Jotai
  does at 1.
\<close>

theorem increments_same_function_counterexample:
  "zustand_step (Finite 9007199254740992) \<noteq> Finite (9007199254740992 + 1)
   \<and> jotai_step (Finite 9007199254740992) \<noteq> Finite (9007199254740992 + 1)
   \<and> mobx_step (Finite 9007199254740992) \<noteq> Finite (9007199254740992 + 1)
   \<and> recoil_handler_step (Finite 9007199254740992) (Finite 9007199254740992)
       \<noteq> Finite (9007199254740992 + 1)
   \<and> recoil_handler_step (Finite 0) (Finite 1) \<noteq> jotai_step (Finite 1)"
  by (simp add: step_functions recoil_handler_step_rendered round_binary64_tie
      round_binary64_small)


section \<open>The claims about the theme\<close>

text \<open>
  C9: on the themes \<open>'light'\<close> and \<open>'dark'\<close>, toggling twice gives the theme back.
\<close>

theorem toggle_involution:
  "t \<in> {''light'', ''dark''} \<Longrightarrow> toggle (toggle t) = t"
  by (auto simp add: toggle_def)

text \<open>
  Toggling \<open>'light'\<close> twice.
\<close>

theorem toggle_involution_witness:
  "''light'' \<in> {''light'', ''dark''} \<and> toggle (toggle ''light'') = ''light''"
  using toggle_involution [of "''light''"] by simp

text \<open>
  C10: after any number of clicks from the initial theme, the theme is \<open>'light'\<close> or
  \<open>'dark'\<close>, \<open>App\<close> renders, and its background is \<open>'#333'\<close> exactly when the theme
  is \<open>'dark'\<close> and \<open>'#fff'\<close> exactly when it is not.
\<close>

theorem theme_invariant:
  "theme ((Context_onClick ^^ n) ThemeProvider_initial) \<in> {''light'', ''dark''}
   \<and> (\<exists>view. App (Some ((Context_onClick ^^ n) ThemeProvider_initial)) = Inr view
        \<and> (background view = ''#333'')
            = (theme ((Context_onClick ^^ n) ThemeProvider_initial) = ''dark'')
        \<and> (background view = ''#fff'')
            = (theme ((Context_onClick ^^ n) ThemeProvider_initial) \<noteq> ''dark''))"
  by (simp add: Context_run App_def useTheme_def)

end
